theory Spec2Isabelle
  imports Main "HOL-Library.Word"
begin

section \<open>JavaScript values and strings\<close>

text \<open>
  A JavaScript string is a sequence of 16-bit code units. Every exported function of
  \<^verbatim>\<open>regexUtils.js\<close> first asks \<^verbatim>\<open>typeof x !== 'string'\<close>, so the argument is a
  JavaScript value of any type.
\<close>

type_synonym code_unit = "16 word"
type_synonym js_string = "code_unit list"

datatype js_value = JSUndefined | JSNull | JSBoolean bool | JSNumber int | JSString js_string

fun typeof :: "js_value \<Rightarrow> string" where
  "typeof JSUndefined = ''undefined''"
| "typeof JSNull = ''object''"
| "typeof (JSBoolean b) = ''boolean''"
| "typeof (JSNumber n) = ''number''"
| "typeof (JSString s) = ''string''"

text \<open>A string literal of the source, as code units.\<close>

definition js :: "string \<Rightarrow> js_string" where
  "js cs = map of_char cs"

definition startsWith :: "js_string \<Rightarrow> js_string \<Rightarrow> bool" where
  "startsWith s p = (take (length p) s = p)"

subsection \<open>Code points of a string (the \<^verbatim>\<open>u\<close> flag)\<close>

definition lead_surrogate :: "code_unit \<Rightarrow> bool" where
  "lead_surrogate c = (0xD800 \<le> c \<and> c \<le> 0xDBFF)"

definition trail_surrogate :: "code_unit \<Rightarrow> bool" where
  "trail_surrogate c = (0xDC00 \<le> c \<and> c \<le> 0xDFFF)"

fun code_points :: "js_string \<Rightarrow> nat list" where
  "code_points [] = []"
| "code_points [c] = [unat c]"
| "code_points (h # l # s) =
     (if lead_surrogate h \<and> trail_surrogate l
      then (0x10000 + (unat h - 0xD800) * 0x400 + (unat l - 0xDC00)) # code_points s
      else unat h # code_points (l # s))"

definition utf16 :: "nat \<Rightarrow> js_string" where
  "utf16 cp =
     (if cp < 0x10000 then [of_nat cp]
      else [of_nat (0xD800 + (cp - 0x10000) div 0x400), of_nat (0xDC00 + (cp - 0x10000) mod 0x400)])"

definition from_code_points :: "nat list \<Rightarrow> js_string" where
  "from_code_points cps = concat (map utf16 cps)"

section \<open>Character classes\<close>

text \<open>
  The members of a bracket expression: a single character, a range, or a class escape
  (\<^verbatim>\<open>\d\<close>, \<^verbatim>\<open>\s\<close>, \<^verbatim>\<open>\p{...}\<close>). Classes are predicates on the numeric value of
  a character: of a code unit for a plain pattern, of a code point for a \<^verbatim>\<open>u\<close> pattern.
\<close>

datatype citem = One char | Range char char | Esc "nat \<Rightarrow> bool"

fun item_has :: "citem \<Rightarrow> nat \<Rightarrow> bool" where
  "item_has (One c) x = (x = of_char c)"
| "item_has (Range lo hi) x = (of_char lo \<le> x \<and> x \<le> of_char hi)"
| "item_has (Esc P) x = P x"

definition bracket :: "citem list \<Rightarrow> nat \<Rightarrow> bool" where
  "bracket items x = list_ex (\<lambda>i. item_has i x) items"

definition not_bracket :: "citem list \<Rightarrow> nat \<Rightarrow> bool" where
  "not_bracket items x = (\<not> bracket items x)"

text \<open>\<^verbatim>\<open>\d\<close> is \<^verbatim>\<open>[0-9]\<close>, \<^verbatim>\<open>\w\<close> is \<^verbatim>\<open>[A-Za-z0-9_]\<close>.\<close>

definition esc_d :: "nat \<Rightarrow> bool" where
  "esc_d = bracket [Range CHR ''0'' CHR ''9'']"

definition esc_w :: "nat \<Rightarrow> bool" where
  "esc_w = bracket [Range CHR ''A'' CHR ''Z'', Range CHR ''a'' CHR ''z'', Range CHR ''0'' CHR ''9'', One CHR ''_'']"

text \<open>
  \<^verbatim>\<open>\s\<close> is ECMAScript's WhiteSpace and LineTerminator: TAB, LF, VT, FF, CR, SPACE, NBSP,
  U+1680, U+2000..U+200A, LS, PS, U+202F, U+205F, U+3000 and U+FEFF.
  \<^verbatim>\<open>String.prototype.trim\<close> strips the same characters.
\<close>

definition esc_s :: "nat \<Rightarrow> bool" where
  "esc_s x = (x \<in> set [0x9, 0xA, 0xB, 0xC, 0xD, 0x20, 0xA0, 0x1680, 0x2028, 0x2029, 0x202F, 0x205F, 0x3000, 0xFEFF]
              \<or> (0x2000 \<le> x \<and> x \<le> 0x200A))"

text \<open>\<^verbatim>\<open>.\<close> without the \<^verbatim>\<open>s\<close> flag: any character but the line terminators.\<close>

definition dot :: "nat \<Rightarrow> bool" where
  "dot x = (x \<notin> set [0xA, 0xD, 0x2028, 0x2029])"

text \<open>A class of a plain (non-\<^verbatim>\<open>u\<close>) pattern, read on code units.\<close>

definition cu :: "(nat \<Rightarrow> bool) \<Rightarrow> code_unit \<Rightarrow> bool" where
  "cu P c = P (unat c)"

subsection \<open>Unicode data of the engine\<close>

text \<open>
  The Unicode property tables and case mappings belong to the JavaScript engine, not to
  the repository; the functions that use \<^verbatim>\<open>\p{...}\<close>, \<^verbatim>\<open>toUpperCase\<close> or
  \<^verbatim>\<open>toLowerCase\<close> take them as a parameter.
\<close>

record unicode =
  Letter :: "nat \<Rightarrow> bool"
  Lu :: "nat \<Rightarrow> bool"
  Ll :: "nat \<Rightarrow> bool"
  Number :: "nat \<Rightarrow> bool"
  toUpperCase :: "js_string \<Rightarrow> js_string"
  toLowerCase :: "js_string \<Rightarrow> js_string"

section \<open>The regular expression engine\<close>

text \<open>
  The fragment of ECMAScript pattern syntax that the library uses. Quantifiers
  \<^verbatim>\<open>{lo,hi}\<close>, \<^verbatim>\<open>*\<close> and \<^verbatim>\<open>+\<close> are only ever applied to a single character
  class (\<open>Many\<close>, greedy); \<^verbatim>\<open>?\<close> is \<open>Maybe\<close> (greedy); the only lookbehind is a
  negative one on a single class (\<open>NotBehind\<close>). \<open>Boundary\<close> is \<^verbatim>\<open>\b\<close>, with the word
  characters as its argument.
\<close>

datatype 'c regex =
    Eps
  | Cls "'c \<Rightarrow> bool"
  | Many "'c \<Rightarrow> bool" nat "nat option"
  | Cat "'c regex" "'c regex"
  | Or "'c regex" "'c regex"
  | Maybe "'c regex"
  | Grp nat "'c regex"
  | Start
  | End
  | Boundary "'c \<Rightarrow> bool"
  | Look "'c regex"
  | NotLook "'c regex"
  | NotBehind "'c \<Rightarrow> bool"

text \<open>
  A matcher state: the characters before the current position (nearest first), the
  characters from the current position on, and the captures made so far (latest first).
\<close>

type_synonym 'c mstate = "'c list \<times> 'c list \<times> (nat \<times> 'c list) list"

text \<open>
  \<open>ends r st\<close> lists the states in which a match of \<open>r\<close> started at \<open>st\<close> can end, in
  the order in which the backtracking matcher of ECMAScript tries them: the head of the
  list is the match that \<^verbatim>\<open>exec\<close> reports, and the pattern fails at \<open>st\<close> exactly when the
  list is empty.
\<close>

fun many :: "('c \<Rightarrow> bool) \<Rightarrow> nat \<Rightarrow> nat option \<Rightarrow> 'c mstate \<Rightarrow> 'c mstate list" where
  "many P lo hi (b, [], cs) = (if lo = 0 then [(b, [], cs)] else [])"
| "many P lo hi (b, c # a, cs) =
     (if P c \<and> hi \<noteq> Some 0
      then many P (lo - 1) (map_option (\<lambda>h. h - 1) hi) (c # b, a, cs) else [])
     @ (if lo = 0 then [(b, c # a, cs)] else [])"

primrec ends :: "'c regex \<Rightarrow> 'c mstate \<Rightarrow> 'c mstate list" where
  "ends Eps st = [st]"
| "ends (Cls P) st =
     (case st of (b, c # a, cs) \<Rightarrow> if P c then [(c # b, a, cs)] else [] | _ \<Rightarrow> [])"
| "ends (Many P lo hi) st = many P lo hi st"
| "ends (Cat r1 r2) st = concat (map (ends r2) (ends r1 st))"
| "ends (Or r1 r2) st = ends r1 st @ ends r2 st"
| "ends (Maybe r) st = ends r st @ [st]"
| "ends (Grp n r) st =
     map (\<lambda>(b', a', cs'). (b', a', (n, take (length (fst (snd st)) - length a') (fst (snd st))) # cs'))
         (ends r st)"
| "ends Start st = (if fst st = [] then [st] else [])"
| "ends End st = (if fst (snd st) = [] then [st] else [])"
| "ends (Boundary W) st =
     (case st of (b, a, cs) \<Rightarrow>
        if (b \<noteq> [] \<and> W (hd b)) \<noteq> (a \<noteq> [] \<and> W (hd a)) then [st] else [])"
| "ends (Look r) st =
     (case ends r st of [] \<Rightarrow> [] | (b', a', cs') # _ \<Rightarrow> [(fst st, fst (snd st), cs')])"
| "ends (NotLook r) st = (if ends r st = [] then [st] else [])"
| "ends (NotBehind P) st = (if fst st \<noteq> [] \<and> P (hd (fst st)) then [] else [st])"

text \<open>A literal character and a literal string.\<close>

definition chr :: "char \<Rightarrow> 'c::comm_semiring_1 regex" where
  "chr c = Cls (\<lambda>x. x = of_char c)"

fun lit :: "'c list \<Rightarrow> 'c regex" where
  "lit [] = Eps"
| "lit [c] = Cls (\<lambda>x. x = c)"
| "lit (c # cs) = Cat (Cls (\<lambda>x. x = c)) (lit cs)"

text \<open>\<^verbatim>\<open>a|b|c\<close>; the empty alternation matches the empty string.\<close>

fun alts :: "'c regex list \<Rightarrow> 'c regex" where
  "alts [] = Eps"
| "alts [r] = r"
| "alts (r # rs) = Or r (alts rs)"

text \<open>
  \<^verbatim>\<open>RegExp.prototype.exec\<close> from the start of the input: the first position, from left to
  right, at which the pattern matches; the result is the text before the match and the
  state at its end.
\<close>

fun exec :: "'c regex \<Rightarrow> 'c list \<Rightarrow> 'c list \<Rightarrow> ('c list \<times> 'c mstate) option" where
  "exec r b [] = (case ends r (b, [], []) of [] \<Rightarrow> None | st # _ \<Rightarrow> Some (b, st))"
| "exec r b (c # a) =
     (case ends r (b, c # a, []) of [] \<Rightarrow> exec r (c # b) a | st # _ \<Rightarrow> Some (b, st))"

definition test :: "'c regex \<Rightarrow> 'c list \<Rightarrow> bool" where
  "test r s = (exec r [] s \<noteq> None)"

text \<open>\<^verbatim>\<open>s.match(r)\<close> for a pattern without the \<^verbatim>\<open>g\<close> flag: the captures, or \<^verbatim>\<open>null\<close>.\<close>

definition match_groups :: "'c regex \<Rightarrow> 'c list \<Rightarrow> (nat \<times> 'c list) list option" where
  "match_groups r s = map_option (\<lambda>(b, st). snd (snd st)) (exec r [] s)"

text \<open>\<^verbatim>\<open>s.replace(r, t)\<close> for a pattern without the \<^verbatim>\<open>g\<close> flag: the first match only.\<close>

definition replace_first :: "'c regex \<Rightarrow> 'c list \<Rightarrow> 'c list \<Rightarrow> 'c list" where
  "replace_first r t s =
     (case exec r [] s of None \<Rightarrow> s | Some (b, st) \<Rightarrow> rev b @ t @ fst (snd st))"

text \<open>
  The scan of a \<^verbatim>\<open>g\<close> pattern, shared by \<^verbatim>\<open>match\<close> and \<^verbatim>\<open>replace\<close>: the input cut into
  matches and the characters between them. After an empty match the scan moves on by one
  character.
\<close>

datatype 'c piece = Keep 'c | Hit "'c list"

function scan :: "'c regex \<Rightarrow> 'c list \<Rightarrow> 'c list \<Rightarrow> 'c piece list" where
  "scan r b a =
     (case ends r (b, a, []) of
        [] \<Rightarrow> (case a of [] \<Rightarrow> [] | c # a2 \<Rightarrow> Keep c # scan r (c # b) a2)
      | (b', a', cs') # _ \<Rightarrow>
          if length a' < length a then Hit (take (length a - length a') a) # scan r b' a'
          else Hit [] # (case a of [] \<Rightarrow> [] | c # a2 \<Rightarrow> Keep c # scan r (c # b) a2))"
  by pat_completeness auto
termination
  by (relation "measure (\<lambda>(r, b, a). length a)") auto

declare scan.simps [simp del]

definition match_all :: "'c regex \<Rightarrow> 'c list \<Rightarrow> 'c list list" where
  "match_all r s = concat (map (\<lambda>p. case p of Keep c \<Rightarrow> [] | Hit m \<Rightarrow> [m]) (scan r [] s))"

definition replace_all :: "'c regex \<Rightarrow> ('c list \<Rightarrow> 'c list) \<Rightarrow> 'c list \<Rightarrow> 'c list" where
  "replace_all r f s = concat (map (\<lambda>p. case p of Keep c \<Rightarrow> [c] | Hit m \<Rightarrow> f m) (scan r [] s))"

text \<open>
  A pattern literal with its mode: plain patterns run on the code units, \<^verbatim>\<open>u\<close> patterns on
  the code points of the string.
\<close>

datatype js_regex = Plain "code_unit regex" | Unicode "nat regex"

fun regex_test :: "js_regex \<Rightarrow> js_string \<Rightarrow> bool" where
  "regex_test (Plain r) s = test r s"
| "regex_test (Unicode r) s = test r (code_points s)"

fun string_match_all :: "js_regex \<Rightarrow> js_string \<Rightarrow> js_string list" where
  "string_match_all (Plain r) s = match_all r s"
| "string_match_all (Unicode r) s = map from_code_points (match_all r (code_points s))"

fun string_replace_all :: "js_regex \<Rightarrow> (js_string \<Rightarrow> js_string) \<Rightarrow> js_string \<Rightarrow> js_string" where
  "string_replace_all (Plain r) f s = replace_all r f s"
| "string_replace_all (Unicode r) f s =
     concat (map (\<lambda>p. case p of Keep c \<Rightarrow> utf16 c | Hit m \<Rightarrow> f (from_code_points m))
                 (scan r [] (code_points s)))"


section \<open>validateEmail\<close>

definition email_regex :: "code_unit regex" where
  "email_regex =
     Cat Start
    (Cat (Many (cu (bracket [Range CHR ''a'' CHR ''z'', Range CHR ''A'' CHR ''Z'', Range CHR ''0'' CHR ''9'',
                             One CHR ''.'', One CHR ''_'', One CHR ''%'', One CHR ''+'', One CHR ''-''])) 1 (Some 64))
    (Cat (chr CHR ''@'')
    (Cat (Many (cu (bracket [Range CHR ''a'' CHR ''z'', Range CHR ''A'' CHR ''Z'', Range CHR ''0'' CHR ''9'',
                             One CHR ''.'', One CHR ''-''])) 1 None)
    (Cat (chr CHR ''.'')
    (Cat (Many (cu (bracket [Range CHR ''a'' CHR ''z'', Range CHR ''A'' CHR ''Z''])) 2 (Some 63))
     End)))))"

definition validateEmail :: "js_value \<Rightarrow> bool" where
  "validateEmail email =
     (case email of
        JSString s \<Rightarrow> if length s = 0 then False else regex_test (Plain email_regex) s
      | _ \<Rightarrow> False)"

section \<open>Validation results\<close>

record requirement =
  met :: bool
  message :: string

record validation_result =
  isValid :: bool
  requirements :: "requirement list"

text \<open>
  While a validator runs, each requirement object also carries its pattern; the documented
  result keeps \<open>met\<close> and \<open>message\<close>.
\<close>

type_synonym checked_requirement = "js_regex \<times> requirement"

definition set_met :: "nat \<Rightarrow> bool \<Rightarrow> checked_requirement list \<Rightarrow> checked_requirement list" where
  "set_met i v reqs = reqs[i := (fst (reqs ! i), (snd (reqs ! i))\<lparr>met := v\<rparr>)]"

definition set_regex :: "nat \<Rightarrow> js_regex \<Rightarrow> checked_requirement list \<Rightarrow> checked_requirement list" where
  "set_regex i r reqs = reqs[i := (r, snd (reqs ! i))]"

definition every_met :: "checked_requirement list \<Rightarrow> bool" where
  "every_met reqs = list_all (\<lambda>req. met (snd req)) reqs"

section \<open>validateInternationalPhoneNumber\<close>

definition plus_or_00 :: "nat \<Rightarrow> code_unit regex" where
  "plus_or_00 n = Grp n (Or (chr CHR ''+'') (lit (js ''00'')))"

definition phone_class :: "nat \<Rightarrow> bool" where
  "phone_class = bracket [Range CHR ''0'' CHR ''9'', Esc esc_s, One CHR ''-'', One CHR ''('', One CHR '')'']"

definition mobile_prefix_message :: string where
  "mobile_prefix_message = ''Valid mobile prefix for the country (if applicable)''"

definition prefix_regex :: "code_unit regex" where
  "prefix_regex = Cat Start (plus_or_00 1)"

definition length_regex :: "code_unit regex" where
  "length_regex =
     Cat Start (Cat (plus_or_00 1) (Cat (Many (cu phone_class) 6 (Some 14))
       (Cat (Cls (cu (bracket [Range CHR ''0'' CHR ''9'']))) End)))"

definition charset_regex :: "code_unit regex" where
  "charset_regex = Cat Start (Cat (plus_or_00 1) (Cat (Many (cu phone_class) 0 None) End))"

definition known_code_regex :: "code_unit regex" where
  "known_code_regex =
     Cat Start (Cat (plus_or_00 1)
       (Cat (Grp 2 (alts (map (\<lambda>c. lit (js c))
              [''1'', ''254'', ''255'', ''44'', ''91'', ''61'', ''234'', ''55'', ''49'', ''81''])))
            (Cls (cu esc_d))))"

definition phone_requirements :: "checked_requirement list" where
  "phone_requirements =
     [(Plain prefix_regex,
       \<lparr>met = False, message = ''Must include country code (+ or 00)''\<rparr>),
      (Plain length_regex,
       \<lparr>met = False, message = ''Valid length for the country''\<rparr>),
      (Plain charset_regex,
       \<lparr>met = False, message = ''Only digits, spaces, hyphens, or parentheses allowed''\<rparr>),
      (Plain known_code_regex,
       \<lparr>met = False, message = ''Valid country code (e.g., +1, +254, +44)''\<rparr>),
      (Plain (Many (cu dot) 0 None),
       \<lparr>met = True, message = ''Valid mobile prefix for the country (if applicable)''\<rparr>)]"

definition invalid_phone_input :: validation_result where
  "invalid_phone_input =
     \<lparr>isValid = False,
      requirements =
        [\<lparr>met = False, message = ''Must include country code (+ or 00)''\<rparr>,
         \<lparr>met = False, message = ''Valid length for the country''\<rparr>,
         \<lparr>met = False, message = ''Only digits, spaces, hyphens, or parentheses allowed''\<rparr>,
         \<lparr>met = False, message = ''Valid country code (e.g., +1, +254, +44)''\<rparr>,
         \<lparr>met = False, message = ''Valid mobile prefix for the country (if applicable)''\<rparr>]\<rparr>"

text \<open>The numbering-plan table. A national length is a number or an array of numbers.\<close>

datatype length_rule = Exactly nat | AnyOf "nat list"

record country_rule =
  length_rule :: length_rule
  mobilePrefixes :: "js_string list"

definition countryRules :: "(js_string \<times> country_rule) list" where
  "countryRules =
     [(js ''1'', \<lparr>length_rule = Exactly 10, mobilePrefixes = map js
        [''202'', ''212'', ''310'', ''408'', ''415'', ''510'', ''650'', ''213'', ''323'', ''424'',
         ''619'', ''707'', ''805'', ''818'', ''831'', ''858'', ''909'', ''916'', ''925'', ''949'']\<rparr>),
      (js ''254'', \<lparr>length_rule = Exactly 9, mobilePrefixes = map js
        [''70'', ''71'', ''72'', ''73'', ''74'', ''75'', ''76'', ''77'', ''78'', ''79'']\<rparr>),
      (js ''255'', \<lparr>length_rule = Exactly 9, mobilePrefixes = map js
        [''65'', ''67'', ''68'', ''69'', ''71'', ''73'', ''74'', ''75'', ''76'', ''77'', ''78'', ''79'']\<rparr>),
      (js ''44'', \<lparr>length_rule = Exactly 10, mobilePrefixes = map js [''74'', ''75'', ''77'', ''78'', ''79'']\<rparr>),
      (js ''91'', \<lparr>length_rule = Exactly 10, mobilePrefixes = map js [''6'', ''7'', ''8'', ''9'']\<rparr>),
      (js ''61'', \<lparr>length_rule = Exactly 9, mobilePrefixes = map js [''4'']\<rparr>),
      (js ''234'', \<lparr>length_rule = Exactly 10, mobilePrefixes = map js [''70'', ''80'', ''81'', ''90'', ''91'']\<rparr>),
      (js ''55'', \<lparr>length_rule = AnyOf [10, 11], mobilePrefixes = map js [''6'', ''7'', ''8'', ''9'']\<rparr>),
      (js ''49'', \<lparr>length_rule = AnyOf [10, 11], mobilePrefixes = map js [''15'', ''16'', ''17'']\<rparr>),
      (js ''81'', \<lparr>length_rule = Exactly 10, mobilePrefixes = map js [''70'', ''80'', ''90'']\<rparr>)]"

definition country_code_regex :: "code_unit regex" where
  "country_code_regex = Cat Start (Cat (plus_or_00 1) (Grp 2 (Many (cu esc_d) 1 (Some 3))))"

text \<open>\<^verbatim>\<open>phone.replace(/[^\d]/g, '').slice(countryCode.length)\<close>\<close>

definition national_digits :: "js_string \<Rightarrow> js_string \<Rightarrow> js_string" where
  "national_digits phone countryCode =
     drop (length countryCode)
       (string_replace_all (Plain (Cls (cu (not_bracket [Esc esc_d])))) (\<lambda>m. []) phone)"

definition valid_length :: "country_rule \<Rightarrow> js_string \<Rightarrow> bool" where
  "valid_length rules digits =
     (case length_rule rules of
        AnyOf ls \<Rightarrow> length digits \<in> set ls
      | Exactly n \<Rightarrow> length digits = n)"

text \<open>
  The pattern built by \<^verbatim>\<open>new RegExp(...)\<close> for the fifth requirement. It is stored and
  never tested.
\<close>

definition mobile_prefix_regex :: "js_string \<Rightarrow> js_string list \<Rightarrow> js_regex" where
  "mobile_prefix_regex countryCode prefixes =
     Plain (Cat Start (Cat (plus_or_00 1) (Cat (lit countryCode) (Grp 2 (alts (map lit prefixes))))))"

text \<open>
  The country-specific part, for a matched country code. Every entry of the table lists at
  least one prefix, so \<^verbatim>\<open>rules.mobilePrefixes[0]\<close> is always defined.
\<close>

definition country_specific ::
  "js_string \<Rightarrow> js_string \<Rightarrow> checked_requirement list \<Rightarrow> checked_requirement list" where
  "country_specific phone countryCode reqs =
     (let digits = national_digits phone countryCode in
      case map_of countryRules countryCode of
        Some rules \<Rightarrow>
          let isValidLength = valid_length rules digits;
              reqs1 = (case mobilePrefixes rules of
                         [] \<Rightarrow> reqs
                       | p0 # _ \<Rightarrow>
                           let prefix = take (length p0) digits;
                               isValidMobilePrefix = (prefix \<in> set (mobilePrefixes rules))
                           in set_met 4 isValidMobilePrefix
                                (set_regex 4 (mobile_prefix_regex countryCode (mobilePrefixes rules)) reqs))
          in set_met 1 (met (snd (reqs1 ! 1)) \<and> isValidLength) reqs1
      | None \<Rightarrow>
          let isValidLength = (length digits \<ge> 6 \<and> length digits \<le> 14);
              reqs1 = set_met 4 True reqs
          in set_met 1 (met (snd (reqs1 ! 1)) \<and> isValidLength) reqs1)"

definition validateInternationalPhoneNumber :: "js_value \<Rightarrow> validation_result" where
  "validateInternationalPhoneNumber phone =
     (case phone of
        JSString s \<Rightarrow>
          if length s = 0 then invalid_phone_input
          else
            let reqs0 = map (\<lambda>req. if message (snd req) \<noteq> mobile_prefix_message
                                     then (fst req, (snd req)\<lparr>met := regex_test (fst req) s\<rparr>)
                                     else req)
                            phone_requirements;
                reqs = (case match_groups country_code_regex s of
                          Some groups \<Rightarrow>
                            (case map_of groups 2 of
                               Some countryCode \<Rightarrow> country_specific s countryCode reqs0
                             | None \<Rightarrow> reqs0)
                        | None \<Rightarrow> set_met 4 True (set_met 1 False reqs0))
            in \<lparr>isValid = every_met reqs, requirements = map snd reqs\<rparr>
      | _ \<Rightarrow> invalid_phone_input)"

section \<open>formatPhoneNumber\<close>

definition format_regex :: "code_unit regex" where
  "format_regex =
     Cat Start (Cat (Grp 1 (chr CHR ''+''))
       (Cat (Many (cu (bracket [Range CHR ''0'' CHR ''9''])) 6 (Some 15)) End))"

definition formatPhoneNumber :: "js_value \<Rightarrow> js_string" where
  "formatPhoneNumber phone =
     (case phone of
        JSString s \<Rightarrow>
          if length s = 0 then []
          else
            let formatted = replace_first (Cat Start (lit (js ''00''))) (js ''+'') s;
                formatted = string_replace_all
                  (Plain (Cls (cu (bracket [Esc esc_s, One CHR ''-'', One CHR ''('', One CHR '')'']))))
                  (\<lambda>m. []) formatted
            in if \<not> startsWith formatted (js ''+'') then []
               else if \<not> regex_test (Plain format_regex) formatted then []
               else formatted
      | _ \<Rightarrow> [])"

section \<open>checkPasswordComplexity and checkPasswordStrength\<close>

definition any_chars :: "nat regex" where
  "any_chars = Many dot 0 None"

definition complexity_regex :: "unicode \<Rightarrow> nat regex" where
  "complexity_regex U =
     Cat Start
    (Cat (NotLook (Cls esc_s))
    (Cat (Look (Cat (Cls (Lu U)) any_chars))
    (Cat (Look (Cat (Cls (Ll U)) any_chars))
    (Cat (Look (Cat (Cls (Number U)) any_chars))
    (Cat (Look (Cat (Cls (not_bracket [Esc (Letter U), Esc (Number U)])) any_chars))
    (Cat (Many dot 8 None)
     End))))))"

definition checkPasswordComplexity :: "unicode \<Rightarrow> js_value \<Rightarrow> bool" where
  "checkPasswordComplexity U password =
     (case password of
        JSString s \<Rightarrow> if length s = 0 then False else regex_test (Unicode (complexity_regex U)) s
      | _ \<Rightarrow> False)"

definition password_requirements :: "unicode \<Rightarrow> checked_requirement list" where
  "password_requirements U =
     [(Plain (Many (cu dot) 8 None),
       \<lparr>met = False, message = ''At least 8 characters''\<rparr>),
      (Unicode (Cls (Lu U)),
       \<lparr>met = False, message = ''At least one uppercase letter''\<rparr>),
      (Unicode (Cls (Ll U)),
       \<lparr>met = False, message = ''At least one lowercase letter''\<rparr>),
      (Unicode (Cls (Number U)),
       \<lparr>met = False, message = ''At least one digit''\<rparr>),
      (Unicode (Cls (not_bracket [Esc (Letter U), Esc (Number U), Esc esc_s])),
       \<lparr>met = False, message = ''At least one special character''\<rparr>),
      (Plain (Cat Start (Cat (NotLook (Cls (cu esc_s)))
                (Cat (Many (cu dot) 0 None) (Cat (NotBehind (cu esc_s)) End)))),
       \<lparr>met = False, message = ''No leading or trailing whitespace''\<rparr>)]"

definition invalid_password_input :: validation_result where
  "invalid_password_input =
     \<lparr>isValid = False,
      requirements =
        [\<lparr>met = False, message = ''At least 8 characters''\<rparr>,
         \<lparr>met = False, message = ''At least one uppercase letter''\<rparr>,
         \<lparr>met = False, message = ''At least one lowercase letter''\<rparr>,
         \<lparr>met = False, message = ''At least one digit''\<rparr>,
         \<lparr>met = False, message = ''At least one special character''\<rparr>,
         \<lparr>met = False, message = ''No leading or trailing whitespace''\<rparr>]\<rparr>"

definition checkPasswordStrength :: "unicode \<Rightarrow> js_value \<Rightarrow> validation_result" where
  "checkPasswordStrength U password =
     (case password of
        JSString s \<Rightarrow>
          if length s = 0 then invalid_password_input
          else
            let reqs = map (\<lambda>req. (fst req, (snd req)\<lparr>met := regex_test (fst req) s\<rparr>))
                           (password_requirements U)
            in \<lparr>isValid = every_met reqs, requirements = map snd reqs\<rparr>
      | _ \<Rightarrow> invalid_password_input)"

section \<open>extractSocialMediaEntities and tokenizeText\<close>

definition lit_str :: "string \<Rightarrow> 'c::comm_semiring_1 regex" where
  "lit_str cs = lit (map of_char cs)"

definition tag_class :: "unicode \<Rightarrow> nat \<Rightarrow> bool" where
  "tag_class U = bracket [Esc (Letter U), Esc esc_d, One CHR ''_'']"

definition hashtagRegex :: "unicode \<Rightarrow> js_regex" where
  "hashtagRegex U = Unicode (Cat (chr CHR ''#'') (Many (tag_class U) 1 None))"

definition mentionRegex :: "unicode \<Rightarrow> js_regex" where
  "mentionRegex U = Unicode (Cat (chr CHR ''@'') (Many (tag_class U) 1 None))"

definition url_class :: "unicode \<Rightarrow> nat \<Rightarrow> bool" where
  "url_class U =
     bracket [Esc (Letter U), Esc esc_d, One CHR ''-'', One CHR ''.'', One CHR ''_'', One CHR ''~'',
              One CHR '':'', One CHR ''/'', One CHR ''?'', One CHR ''#'', One CHR ''['', One CHR '']'',
              One CHR ''@'', One CHR ''!'', One CHR ''$'', One CHR ''&'', One (CHR 0x27), One CHR ''('',
              One CHR '')'', One CHR ''*'', One CHR ''+'', One CHR '','', One CHR '';'', One CHR ''='']"

definition urlRegex :: "unicode \<Rightarrow> js_regex" where
  "urlRegex U =
     Unicode (Cat (Or (Cat (lit_str ''http'') (Cat (Maybe (chr CHR ''s'')) (lit_str ''://'')))
                      (lit_str ''www.''))
                  (Many (url_class U) 1 None))"

record social_entities =
  hashtags :: "js_string list"
  mentions :: "js_string list"
  urls :: "js_string list"

record tokenized_text = social_entities +
  words :: "js_string list"
  numbers :: "js_string list"
  punctuation :: "js_string list"

definition extractSocialMediaEntities :: "unicode \<Rightarrow> js_value \<Rightarrow> social_entities" where
  "extractSocialMediaEntities U text =
     (case text of
        JSString s \<Rightarrow>
          if length s = 0 then \<lparr>hashtags = [], mentions = [], urls = []\<rparr>
          else \<lparr>hashtags = string_match_all (hashtagRegex U) s,
                mentions = string_match_all (mentionRegex U) s,
                urls = string_match_all (urlRegex U) s\<rparr>
      | _ \<Rightarrow> \<lparr>hashtags = [], mentions = [], urls = []\<rparr>)"

definition wordRegex :: "unicode \<Rightarrow> js_regex" where
  "wordRegex U = Unicode (Many (Letter U) 1 None)"

definition numberRegex :: js_regex where
  "numberRegex = Plain (Cat (Many (cu esc_d) 1 None)
                            (Maybe (Cat (chr CHR ''.'') (Many (cu esc_d) 1 None))))"

definition punctuationRegex :: "unicode \<Rightarrow> js_regex" where
  "punctuationRegex U = Unicode (Cls (not_bracket [Esc (Letter U), Esc (Number U), Esc esc_s]))"

definition tokenizeText :: "unicode \<Rightarrow> js_value \<Rightarrow> tokenized_text" where
  "tokenizeText U text =
     (case text of
        JSString s \<Rightarrow>
          if length s = 0
          then \<lparr>hashtags = [], mentions = [], urls = [], words = [], numbers = [], punctuation = []\<rparr>
          else \<lparr>hashtags = string_match_all (hashtagRegex U) s,
                mentions = string_match_all (mentionRegex U) s,
                urls = string_match_all (urlRegex U) s,
                words = string_match_all (wordRegex U) s,
                numbers = string_match_all numberRegex s,
                punctuation = string_match_all (punctuationRegex U) s\<rparr>
      | _ \<Rightarrow> \<lparr>hashtags = [], mentions = [], urls = [], words = [], numbers = [], punctuation = []\<rparr>)"

section \<open>cleanString\<close>

text \<open>
  The options object. The \<^verbatim>\<open>case\<close> option is one of the four strings of the documented
  type; the source lower-cases it before the \<^verbatim>\<open>switch\<close>, which leaves these four as
  they are.
\<close>

datatype case_option = upper | lower | title | none

record clean_options =
  caseOption :: case_option
  removeSpecial :: bool

definition default_options :: clean_options where
  "default_options = \<lparr>caseOption = none, removeSpecial = False\<rparr>"






text \<open>
  The Unicode data restricted to the Basic Latin block (U+0000 to U+007F): letters are
  \<^verbatim>\<open>A-Z\<close> and \<^verbatim>\<open>a-z\<close>, numbers are \<^verbatim>\<open>0-9\<close>, case conversion maps these letters and
  leaves every other code unit alone. On text within that block an engine consults nothing
  else.
\<close>

definition latin_upper :: "nat \<Rightarrow> bool" where
  "latin_upper = bracket [Range CHR ''A'' CHR ''Z'']"

definition latin_lower :: "nat \<Rightarrow> bool" where
  "latin_lower = bracket [Range CHR ''a'' CHR ''z'']"

definition basic_latin :: unicode where
  "basic_latin =
     \<lparr>Letter = (\<lambda>c. latin_upper c \<or> latin_lower c),
      Lu = latin_upper,
      Ll = latin_lower,
      Number = esc_d,
      toUpperCase = map (\<lambda>c. if cu latin_lower c then c - 32 else c),
      toLowerCase = map (\<lambda>c. if cu latin_upper c then c + 32 else c)\<rparr>"

section \<open>The specification's wording\<close>

text \<open>
  The properties stated for the library, written from their wording: character sets as
  sets of code units, forms as decompositions of the string.
\<close>

definition ascii_letter :: "code_unit \<Rightarrow> bool" where
  "ascii_letter c = ((0x41 \<le> c \<and> c \<le> 0x5A) \<or> (0x61 \<le> c \<and> c \<le> 0x7A))"

definition ascii_digit :: "code_unit \<Rightarrow> bool" where
  "ascii_digit c = (0x30 \<le> c \<and> c \<le> 0x39)"

definition email_form :: "js_string \<Rightarrow> bool" where
  "email_form s =
     (\<exists>local domain tld.
        s = local @ js ''@'' @ domain @ js ''.'' @ tld
        \<and> 1 \<le> length local \<and> length local \<le> 64
        \<and> list_all (\<lambda>c. ascii_letter c \<or> ascii_digit c \<or> c \<in> set (js ''._%+-'')) local
        \<and> 1 \<le> length domain
        \<and> list_all (\<lambda>c. ascii_letter c \<or> ascii_digit c \<or> c \<in> set (js ''.-'')) domain
        \<and> 2 \<le> length tld \<and> length tld \<le> 63 \<and> list_all ascii_letter tld)"

text \<open>
  The steps of the phone formatter, twice. \<open>format_steps_as_claimed\<close> follows the wording
  of the specification: the characters stripped are the space (U+0020), the hyphen and the
  two parentheses. \<open>format_steps\<close> strips every white-space character (the class
  \<^verbatim>\<open>\s\<close>: tab, line feed, no-break space and the others) besides the hyphen and the
  parentheses; it is the statement that holds of the function.
\<close>

definition plus_digits :: "js_string \<Rightarrow> bool" where
  "plus_digits s =
     (case s of [] \<Rightarrow> False
      | c # ds \<Rightarrow> c = of_char CHR ''+'' \<and> 6 \<le> length ds \<and> length ds \<le> 15 \<and> list_all ascii_digit ds)"

definition space_strip_char :: "code_unit \<Rightarrow> bool" where
  "space_strip_char c = (c \<in> set (js '' -()''))"

definition format_steps_as_claimed :: "js_string \<Rightarrow> js_string" where
  "format_steps_as_claimed s =
     (let a = (if startsWith s (js ''00'') then js ''+'' @ drop 2 s else s);
          b = filter (\<lambda>c. \<not> space_strip_char c) a
      in if \<not> startsWith b (js ''+'') then []
         else if \<not> plus_digits b then []
         else b)"

definition strip_char :: "code_unit \<Rightarrow> bool" where
  "strip_char c = (cu esc_s c \<or> c \<in> set (js ''-()''))"

definition format_steps :: "js_string \<Rightarrow> js_string" where
  "format_steps s =
     (let a = (if startsWith s (js ''00'') then js ''+'' @ drop 2 s else s);
          b = filter (\<lambda>c. \<not> strip_char c) a
      in if \<not> startsWith b (js ''+'') then []
         else if \<not> plus_digits b then []
         else b)"

definition tab_number :: js_string where
  "tab_number = js ''+1'' @ [0x9] @ js ''234567''"















text \<open>
  The sample text of the tokenizer, and Unicode data that agree with the Basic Latin block
  on the code points below 128.
\<close>

definition latin_data :: "unicode \<Rightarrow> bool" where
  "latin_data U = (\<forall>c<128. Letter U c = Letter basic_latin c \<and> Number U c = Number basic_latin c)"

definition sample_text :: js_string where
  "sample_text = js ''Hello, world! 123.45 and @user #coding https://example.com''"


section \<open>Devices for the proofs about cleanString\<close>























section \<open>Facts about the engine\<close>

lemma many_set:
  "set (many P lo hi (b, a, cs)) =
     {(rev xs @ b, ys, cs) | xs ys. a = xs @ ys \<and> list_all P xs \<and> lo \<le> length xs
        \<and> (case hi of None \<Rightarrow> True | Some h \<Rightarrow> length xs \<le> h)}"
proof (induction a arbitrary: lo hi b)
  case Nil
  then show ?case by (auto split: option.splits)
next
  case (Cons c a)
  show ?case
  proof (rule set_eqI, rule iffI)
    fix st assume "st \<in> set (many P lo hi (b, c # a, cs))"
    then consider (step) "P c" "hi \<noteq> Some 0"
        "st \<in> set (many P (lo - 1) (map_option (\<lambda>h. h - 1) hi) (c # b, a, cs))"
      | (stop) "lo = 0" "st = (b, c # a, cs)"
      by (auto split: if_splits)
    then show "st \<in> {(rev xs @ b, ys, cs) | xs ys. c # a = xs @ ys \<and> list_all P xs \<and> lo \<le> length xs
        \<and> (case hi of None \<Rightarrow> True | Some h \<Rightarrow> length xs \<le> h)}"
    proof cases
      case step
      from step(3) obtain xs ys where *: "st = (rev xs @ c # b, ys, cs)" "a = xs @ ys" "list_all P xs"
        "lo - 1 \<le> length xs" "(case map_option (\<lambda>h. h - 1) hi of None \<Rightarrow> True | Some h \<Rightarrow> length xs \<le> h)"
        unfolding Cons.IH by auto
      have "st = (rev (c # xs) @ b, ys, cs)" "c # a = (c # xs) @ ys" "list_all P (c # xs)" "lo \<le> length (c # xs)"
        "(case hi of None \<Rightarrow> True | Some h \<Rightarrow> length (c # xs) \<le> h)"
        using * step(1,2) by (auto split: option.splits)
      then show ?thesis by blast
    next
      case stop
      then have "st = (rev [] @ b, c # a, cs)" "c # a = [] @ (c # a)" "list_all P []" "lo \<le> length ([]::'a list)"
        "(case hi of None \<Rightarrow> True | Some h \<Rightarrow> length ([]::'a list) \<le> h)"
        by (auto split: option.splits)
      then show ?thesis by blast
    qed
  next
    fix st assume "st \<in> {(rev xs @ b, ys, cs) | xs ys. c # a = xs @ ys \<and> list_all P xs \<and> lo \<le> length xs
        \<and> (case hi of None \<Rightarrow> True | Some h \<Rightarrow> length xs \<le> h)}"
    then obtain xs ys where *: "st = (rev xs @ b, ys, cs)" "c # a = xs @ ys" "list_all P xs" "lo \<le> length xs"
        "(case hi of None \<Rightarrow> True | Some h \<Rightarrow> length xs \<le> h)" by auto
    show "st \<in> set (many P lo hi (b, c # a, cs))"
    proof (cases xs)
      case Nil
      with * have "lo = 0" "st = (b, c # a, cs)" by auto
      then show ?thesis by simp
    next
      case (Cons x xs')
      with * have "x = c" "a = xs' @ ys" "P c" "list_all P xs'" "lo - 1 \<le> length xs'" "hi \<noteq> Some 0"
        "(case map_option (\<lambda>h. h - 1) hi of None \<Rightarrow> True | Some h \<Rightarrow> length xs' \<le> h)"
        by (auto split: option.splits)
      then have "(rev xs' @ c # b, ys, cs) \<in> set (many P (lo - 1) (map_option (\<lambda>h. h - 1) hi) (c # b, a, cs))"
        unfolding Cons.IH by blast
      with * Cons \<open>x = c\<close> \<open>P c\<close> \<open>hi \<noteq> Some 0\<close> show ?thesis by simp
    qed
  qed
qed

lemma nonempty_set: "(xs \<noteq> []) = (\<exists>x. x \<in> set xs)"
  by (cases xs) auto

lemma ne_Cat: "(ends (Cat r1 r2) st \<noteq> []) = (\<exists>st' \<in> set (ends r1 st). ends r2 st' \<noteq> [])"
  by (auto simp: nonempty_set)

lemma ne_Cat_Many:
  "(ends (Cat (Many P lo hi) r) (b, a, cs) \<noteq> []) =
     (\<exists>xs ys. a = xs @ ys \<and> list_all P xs \<and> lo \<le> length xs
        \<and> (case hi of None \<Rightarrow> True | Some h \<Rightarrow> length xs \<le> h) \<and> ends r (rev xs @ b, ys, cs) \<noteq> [])"
  unfolding ne_Cat by (auto simp: many_set)

lemma ne_Cat_Cls:
  "(ends (Cat (Cls P) r) (b, a, cs) \<noteq> []) = (\<exists>c ys. a = c # ys \<and> P c \<and> ends r (c # b, ys, cs) \<noteq> [])"
  unfolding ne_Cat by (auto split: list.splits)

lemma ne_Cat_chr:
  "(ends (Cat (chr c) r) (b, a, cs) \<noteq> []) = (\<exists>ys. a = of_char c # ys \<and> ends r (of_char c # b, ys, cs) \<noteq> [])"
  unfolding chr_def ne_Cat_Cls by auto

lemma ne_End: "(ends End (b, a, cs) \<noteq> []) = (a = [])"
  by simp

lemma exec_Start_later: "b \<noteq> [] \<Longrightarrow> exec (Cat Start r) b a = None"
  by (induction a arbitrary: b) auto

lemma exec_anchored:
  "exec (Cat Start r) [] s = (case ends r ([], s, []) of [] \<Rightarrow> None | st # _ \<Rightarrow> Some ([], st))"
  by (cases s) (auto simp: exec_Start_later split: list.splits)

lemma test_anchored: "test (Cat Start r) s = (ends r ([], s, []) \<noteq> [])"
  by (simp add: test_def exec_anchored split: list.splits)

lemma scan_Nil: "scan r b [] = (case ends r (b, [], []) of [] \<Rightarrow> [] | st # _ \<Rightarrow> [Hit []])"
  by (subst scan.simps) (auto split: list.splits)

lemma scan_Cons:
  "scan r b (c # a) =
     (case ends r (b, c # a, []) of
        [] \<Rightarrow> Keep c # scan r (c # b) a
      | (b', a', cs') # _ \<Rightarrow>
          if length a' < Suc (length a) then Hit (take (Suc (length a) - length a') (c # a)) # scan r b' a'
          else Hit [] # Keep c # scan r (c # b) a)"
  by (subst scan.simps) (auto split: list.splits)

lemma scan_Cls: "scan (Cls P) b a = map (\<lambda>c. if P c then Hit [c] else Keep c) a"
  by (induction a arbitrary: b) (auto simp: scan_Nil scan_Cons)

lemma replace_all_Cls: "replace_all (Cls P) (\<lambda>m. []) s = filter (\<lambda>c. \<not> P c) s"
  unfolding replace_all_def scan_Cls by (induction s) auto

subsection \<open>Classes on code units\<close>

lemma of_char_less: "(of_char k :: nat) < 65536"
  using nat_of_char_less_256[of k] by linarith

lemma unat_of_char: "unat (of_char k :: code_unit) = of_char k"
proof -
  have "unat (of_nat (of_char k) :: code_unit) = of_char k mod 2 ^ 16"
    by (simp add: unat_of_nat)
  also have "\<dots> = of_char k" using of_char_less[of k] by simp
  finally show ?thesis by (simp only: of_nat_of_char)
qed

lemma unat_eq_of_char: "(unat (c::code_unit) = of_char k) = (c = of_char k)"
  using unat_of_char[of k] by (auto simp: word_unat_eq_iff)

lemma cu_bracket_Cons: "cu (bracket (i # is)) c = (cu (item_has i) c \<or> cu (bracket is) c)"
  by (simp add: cu_def bracket_def)

lemma cu_bracket_Nil: "cu (bracket []) c = False"
  by (simp add: cu_def bracket_def)

lemma cu_item_One: "cu (item_has (One k)) c = (c = of_char k)"
  by (simp add: cu_def unat_eq_of_char)

lemma cu_item_Range: "cu (item_has (Range lo hi)) c = (of_char lo \<le> c \<and> c \<le> of_char hi)"
  by (simp add: cu_def word_le_nat_alt unat_of_char)

lemma cu_item_Esc: "cu (item_has (Esc P)) c = cu P c"
  by (simp add: cu_def)

lemmas cu_class = cu_bracket_Cons cu_bracket_Nil cu_item_One cu_item_Range cu_item_Esc

text \<open>The equations that evaluate a pattern on a concrete string.\<close>

lemmas eval_defs = js_def test_def match_groups_def replace_first_def match_all_def replace_all_def
  scan_Nil scan_Cons chr_def cu_def bracket_def not_bracket_def esc_d_def esc_s_def esc_w_def dot_def
  startsWith_def Let_def

subsection \<open>validateEmail\<close>

lemma email_local_class:
  "cu (bracket [Range CHR ''a'' CHR ''z'', Range CHR ''A'' CHR ''Z'', Range CHR ''0'' CHR ''9'',
                One CHR ''.'', One CHR ''_'', One CHR ''%'', One CHR ''+'', One CHR ''-''])
   = (\<lambda>c. ascii_letter c \<or> ascii_digit c \<or> c \<in> set (js ''._%+-''))"
  by (rule ext) (auto simp: cu_class ascii_letter_def ascii_digit_def js_def)

lemma email_domain_class:
  "cu (bracket [Range CHR ''a'' CHR ''z'', Range CHR ''A'' CHR ''Z'', Range CHR ''0'' CHR ''9'',
                One CHR ''.'', One CHR ''-''])
   = (\<lambda>c. ascii_letter c \<or> ascii_digit c \<or> c \<in> set (js ''.-''))"
  by (rule ext) (auto simp: cu_class ascii_letter_def ascii_digit_def js_def)

lemma email_tld_class:
  "cu (bracket [Range CHR ''a'' CHR ''z'', Range CHR ''A'' CHR ''Z'']) = ascii_letter"
  by (rule ext) (auto simp: cu_class ascii_letter_def)

lemma email_regex_form: "test email_regex s = email_form s"
  unfolding email_regex_def test_anchored ne_Cat_Many ne_Cat_chr ne_End
    email_local_class email_domain_class email_tld_class
  by (simp add: email_form_def js_def) blast

text \<open>
  C8: \<^verbatim>\<open>validateEmail\<close> is true exactly when the whole string is a local part of 1 to 64
  characters from ASCII letters, digits and \<^verbatim>\<open>._%+-\<close>, then \<^verbatim>\<open>@\<close>, then a domain of one
  or more characters from ASCII letters, digits, \<^verbatim>\<open>.\<close> and \<^verbatim>\<open>-\<close>, then \<^verbatim>\<open>.\<close>, then 2
  to 63 ASCII letters; every value that is not a string, and the empty string, give false.
  The letters and digits of the claim are those of the pattern: \<^verbatim>\<open>a-z\<close>, \<^verbatim>\<open>A-Z\<close>,
  \<^verbatim>\<open>0-9\<close>.
\<close>

theorem validateEmail_spec:
  "validateEmail v = (case v of JSString s \<Rightarrow> email_form s | _ \<Rightarrow> False)
   \<and> validateEmail (JSString (js ''user@domain.com''))
   \<and> \<not> validateEmail (JSString (js ''invalid@domain''))
   \<and> \<not> validateEmail (JSString [])"
proof -
  have "\<not> email_form []"
    by (simp add: email_form_def)
  then have "validateEmail v = (case v of JSString s \<Rightarrow> email_form s | _ \<Rightarrow> False)"
    by (cases v) (auto simp: validateEmail_def email_regex_form)
  moreover have "validateEmail (JSString (js ''user@domain.com''))"
    by code_simp
  moreover have "\<not> validateEmail (JSString (js ''invalid@domain''))"
    by code_simp
  moreover have "\<not> validateEmail (JSString [])"
    by code_simp
  ultimately show ?thesis by blast
qed

theorem validateEmail_spec_witness:
  "email_form (js ''user.name@sub.domain.com'') \<and> \<not> email_form (js ''user@domain.c'')
   \<and> \<not> validateEmail (JSNumber 7)"
proof -
  have "validateEmail (JSString (js ''user.name@sub.domain.com''))" by code_simp
  moreover have "\<not> validateEmail (JSString (js ''user@domain.c''))" by code_simp
  ultimately show ?thesis
    using validateEmail_spec[of "JSString (js ''user.name@sub.domain.com'')"]
      validateEmail_spec[of "JSString (js ''user@domain.c'')"]
      validateEmail_spec[of "JSNumber 7"]
    by simp
qed

subsection \<open>formatPhoneNumber\<close>

lemma ends_lit_00:
  "ends (lit (js ''00'')) ([], s, []) =
          (if startsWith s (js ''00'') then [(rev (js ''00''), drop 2 s, [])] else [])"
proof (cases s rule: code_points.cases)
  case 1
  then show ?thesis by (simp add: js_def startsWith_def)
next
  case (2 c)
  then show ?thesis by (simp add: js_def startsWith_def)
next
  case (3 h l s)
  then show ?thesis by (simp add: js_def startsWith_def)
qed

lemma replace_first_00:
  "replace_first (Cat Start (lit (js ''00''))) t s = (if startsWith s (js ''00'') then t @ drop 2 s else s)"
  by (simp add: replace_first_def exec_anchored ends_lit_00)

lemma ne_Cat_Grp_chr:
  "(ends (Cat (Grp n (chr c)) r) (b, a, cs) \<noteq> []) =
     (\<exists>ys. a = of_char c # ys \<and> ends r (of_char c # b, ys, (n, [of_char c]) # cs) \<noteq> [])"
  unfolding ne_Cat by (auto simp: chr_def split: list.splits)

lemma digit_class: "cu (bracket [Range CHR ''0'' CHR ''9'']) = ascii_digit"
  by (rule ext) (auto simp: cu_class ascii_digit_def)

lemma strip_class:
  "cu (bracket [Esc esc_s, One CHR ''-'', One CHR ''('', One CHR '')'']) = strip_char"
  by (rule ext) (auto simp: cu_class strip_char_def js_def)

lemma format_regex_form: "test format_regex s = plus_digits s"
  unfolding format_regex_def test_anchored ne_Cat_Grp_chr ne_Cat_Many ne_End digit_class
  by (cases s) (auto simp: plus_digits_def)

lemma format_steps_Nil: "format_steps [] = []"
  by (simp add: format_steps_def startsWith_def js_def)

lemma formatPhoneNumber_steps:
  "formatPhoneNumber v = (case v of JSString s \<Rightarrow> format_steps s | _ \<Rightarrow> [])"
proof (cases v)
  case (JSString s)
  show ?thesis
  proof (cases "s = []")
    case True
    then show ?thesis by (simp add: JSString formatPhoneNumber_def format_steps_Nil)
  next
    case False
    then show ?thesis
    by (simp add: JSString formatPhoneNumber_def format_steps_def Let_def replace_first_00
        replace_all_Cls strip_class format_regex_form)
  qed
qed (simp_all add: formatPhoneNumber_def)

text \<open>
  C7, as stated, fails: the steps with the space character as the only white space
  stripped give the empty string on \<^verbatim>\<open>+1\<close>, a tab and \<^verbatim>\<open>234567\<close>, where
  \<^verbatim>\<open>formatPhoneNumber\<close> removes the tab and returns \<^verbatim>\<open>+1234567\<close>.
\<close>

theorem formatPhoneNumber_claim_counterexample:
  "formatPhoneNumber (JSString tab_number) = js ''+1234567''
   \<and> format_steps_as_claimed tab_number = []"
  by (simp add: tab_number_def formatPhoneNumber_def format_regex_def format_steps_as_claimed_def
      space_strip_char_def plus_digits_def ascii_digit_def eval_defs)

text \<open>
  C7, amended: \<^verbatim>\<open>formatPhoneNumber\<close> computes the steps of \<open>format_steps\<close> in their
  order: a leading \<^verbatim>\<open>00\<close> becomes \<^verbatim>\<open>+\<close>; every white-space character (the class
  \<^verbatim>\<open>\s\<close>), hyphen and parenthesis is removed; the result is the empty string unless it
  starts with \<^verbatim>\<open>+\<close>, and unless it is \<^verbatim>\<open>+\<close> followed by 6 to 15 digits and nothing
  else; otherwise it is the normalized string. A value that is not a string and the empty
  string give the empty string.
\<close>

theorem formatPhoneNumber_spec:
  "formatPhoneNumber v = (case v of JSString s \<Rightarrow> format_steps s | _ \<Rightarrow> [])
   \<and> formatPhoneNumber (JSString []) = []
   \<and> formatPhoneNumber (JSString (js ''+1 (202) 555-0123'')) = js ''+12025550123''
   \<and> formatPhoneNumber (JSString (js ''123456'')) = []"
proof -
  have "formatPhoneNumber (JSString []) = []"
    by (simp add: formatPhoneNumber_def)
  moreover have "formatPhoneNumber (JSString (js ''+1 (202) 555-0123'')) = js ''+12025550123''"
    by (simp add: formatPhoneNumber_def format_regex_def eval_defs)
  moreover have "formatPhoneNumber (JSString (js ''123456'')) = []"
    by (simp add: formatPhoneNumber_def eval_defs)
  ultimately show ?thesis using formatPhoneNumber_steps by blast
qed

lemma digit_not_strip: "ascii_digit c \<Longrightarrow> \<not> strip_char c"
proof -
  assume "ascii_digit c"
  then have "48 \<le> unat c" "unat c \<le> 57"
    by (simp_all add: ascii_digit_def word_le_nat_alt)
  then have "\<not> cu esc_s c"
    by (auto simp: cu_def esc_s_def)
  moreover have "c \<notin> set (js ''-()'')"
    using \<open>48 \<le> unat c\<close> by (auto simp: js_def)
  ultimately show ?thesis by (simp add: strip_char_def)
qed

lemma plus_not_strip: "\<not> strip_char (of_char CHR ''+'')"
  by (simp add: strip_char_def cu_def esc_s_def js_def)

lemma plus_digits_fixed: "plus_digits s \<Longrightarrow> format_steps s = s"
proof -
  assume pd: "plus_digits s"
  then obtain ds where s: "s = of_char CHR ''+'' # ds" and ds: "list_all ascii_digit ds"
    by (auto simp: plus_digits_def split: list.splits)
  have "filter (\<lambda>c. \<not> strip_char c) ds = ds"
    using ds by (induction ds) (auto simp: digit_not_strip)
  then have "filter (\<lambda>c. \<not> strip_char c) s = s"
    using plus_not_strip by (simp add: s)
  moreover have "\<not> startsWith s (js ''00'')" "startsWith s (js ''+'')"
    by (simp_all add: s startsWith_def js_def)
  ultimately show ?thesis
    using pd by (simp add: format_steps_def)
qed

lemma format_steps_result: "format_steps s = [] \<or> plus_digits (format_steps s)"
  by (simp add: format_steps_def Let_def)

text \<open>
  C10: \<^verbatim>\<open>formatPhoneNumber\<close> applied to its own result returns that result; a result is
  either the empty string or \<^verbatim>\<open>+\<close> followed by 6 to 15 digits.
\<close>

theorem formatPhoneNumber_idempotent:
  "formatPhoneNumber (JSString (formatPhoneNumber v)) = formatPhoneNumber v
   \<and> (formatPhoneNumber v = [] \<or> plus_digits (formatPhoneNumber v))"
proof -
  obtain r where r: "formatPhoneNumber v = r" by simp
  have res: "r = [] \<or> plus_digits r"
    using r format_steps_result by (cases v) (auto simp: formatPhoneNumber_steps)
  have "formatPhoneNumber (JSString r) = r"
    using res plus_digits_fixed by (auto simp: formatPhoneNumber_steps format_steps_Nil)
  with res r show ?thesis by simp
qed

subsection \<open>Validation results\<close>

lemma msgs_update:
  "message (snd y) = message (snd (reqs ! i)) \<Longrightarrow>
   map (\<lambda>r. message (snd r)) (reqs[i := y]) = map (\<lambda>r. message (snd r)) reqs"
proof (cases "i < length reqs")
  case True
  assume "message (snd y) = message (snd (reqs ! i))"
  with True show ?thesis by (simp add: map_update list_update_same_conv)
next
  case False
  then have "reqs[i := y] = reqs" by (simp add: list_update_beyond)
  then show ?thesis by simp
qed

lemma msgs_set_met: "map (\<lambda>r. message (snd r)) (set_met i v reqs) = map (\<lambda>r. message (snd r)) reqs"
  by (simp add: set_met_def msgs_update)

lemma msgs_set_regex: "map (\<lambda>r. message (snd r)) (set_regex i x reqs) = map (\<lambda>r. message (snd r)) reqs"
  by (simp add: set_regex_def msgs_update)

lemma msgs_country_specific:
  "map (\<lambda>r. message (snd r)) (country_specific s cc reqs) = map (\<lambda>r. message (snd r)) reqs"
  by (simp add: country_specific_def Let_def msgs_set_met msgs_set_regex split: option.splits list.splits)

lemma msgs_tested:
  "map (\<lambda>r. message (snd r)) (map (\<lambda>req. if C req then (fst req, (snd req)\<lparr>met := T req\<rparr>) else req) reqs)
   = map (\<lambda>r. message (snd r)) reqs"
  by (induction reqs) auto

lemma phone_result_shape:
  "validateInternationalPhoneNumber v = invalid_phone_input
   \<or> (\<exists>reqs. validateInternationalPhoneNumber v = \<lparr>isValid = every_met reqs, requirements = map snd reqs\<rparr>
        \<and> map (\<lambda>r. message (snd r)) reqs = map (\<lambda>r. message (snd r)) phone_requirements)"
proof (cases v)
  case (JSString s)
  show ?thesis
  proof (cases "length s = 0")
    case True
    then show ?thesis by (simp add: JSString validateInternationalPhoneNumber_def)
  next
    case False
    define reqs0 where "reqs0 = map (\<lambda>req. if message (snd req) \<noteq> mobile_prefix_message
                                     then (fst req, (snd req)\<lparr>met := regex_test (fst req) s\<rparr>)
                                     else req) phone_requirements"
    define reqs where "reqs = (case match_groups country_code_regex s of
                          Some groups \<Rightarrow>
                            (case map_of groups 2 of
                               Some countryCode \<Rightarrow> country_specific s countryCode reqs0
                             | None \<Rightarrow> reqs0)
                        | None \<Rightarrow> set_met 4 True (set_met 1 False reqs0))"
    have m0: "map (\<lambda>r. message (snd r)) reqs0 = map (\<lambda>r. message (snd r)) phone_requirements"
      unfolding reqs0_def by (rule msgs_tested)
    have "map (\<lambda>r. message (snd r)) reqs = map (\<lambda>r. message (snd r)) reqs0"
      unfolding reqs_def by (simp add: msgs_set_met msgs_country_specific split: option.splits)
    moreover have "validateInternationalPhoneNumber v = \<lparr>isValid = every_met reqs, requirements = map snd reqs\<rparr>"
      using False unfolding JSString validateInternationalPhoneNumber_def reqs_def reqs0_def Let_def
      by simp
    ultimately show ?thesis using m0 by auto
  qed
qed (simp_all add: validateInternationalPhoneNumber_def)

lemma password_result_shape:
  "checkPasswordStrength U v = invalid_password_input
   \<or> (\<exists>reqs. checkPasswordStrength U v = \<lparr>isValid = every_met reqs, requirements = map snd reqs\<rparr>
        \<and> map (\<lambda>r. message (snd r)) reqs = map (\<lambda>r. message (snd r)) (password_requirements U))"
proof (cases v)
  case (JSString s)
  show ?thesis
  proof (cases "length s = 0")
    case True
    then show ?thesis by (simp add: JSString checkPasswordStrength_def)
  next
    case False
    define reqs where "reqs = map (\<lambda>req. (fst req, (snd req)\<lparr>met := regex_test (fst req) s\<rparr>))
                           (password_requirements U)"
    have "map (\<lambda>r. message (snd r)) reqs = map (\<lambda>r. message (snd r)) (password_requirements U)"
      unfolding reqs_def using msgs_tested[of "\<lambda>r. True"] by simp
    moreover have "checkPasswordStrength U v = \<lparr>isValid = every_met reqs, requirements = map snd reqs\<rparr>"
      using False unfolding JSString checkPasswordStrength_def reqs_def Let_def by simp
    ultimately show ?thesis by auto
  qed
qed (simp_all add: checkPasswordStrength_def)

lemma every_met_requirements:
  "every_met reqs = list_all met (map snd reqs)"
  by (simp add: every_met_def list.pred_map comp_def)

text \<open>
  C5: for every input, string or not, the result of \<^verbatim>\<open>validateInternationalPhoneNumber\<close>
  and the result of \<^verbatim>\<open>checkPasswordStrength\<close> have \<open>isValid\<close> true exactly when every
  requirement of their list is met.
\<close>

theorem isValid_iff_every_requirement_met:
  "isValid (validateInternationalPhoneNumber v)
     = list_all met (requirements (validateInternationalPhoneNumber v))
   \<and> isValid (checkPasswordStrength U v)
     = list_all met (requirements (checkPasswordStrength U v))"
proof -
  have "isValid (validateInternationalPhoneNumber v)
     = list_all met (requirements (validateInternationalPhoneNumber v))"
    using phone_result_shape[of v]
    by (auto simp: invalid_phone_input_def every_met_requirements)
  moreover have "isValid (checkPasswordStrength U v)
     = list_all met (requirements (checkPasswordStrength U v))"
    using password_result_shape[of U v]
    by (auto simp: invalid_password_input_def every_met_requirements)
  ultimately show ?thesis by simp
qed

text \<open>
  C9: for every input, string or not, \<^verbatim>\<open>validateInternationalPhoneNumber\<close> returns the
  same five messages in the same order and \<^verbatim>\<open>checkPasswordStrength\<close> the same six
  messages in the same order.
\<close>

theorem requirement_messages_fixed:
  "map message (requirements (validateInternationalPhoneNumber v)) =
     [''Must include country code (+ or 00)'',
      ''Valid length for the country'',
      ''Only digits, spaces, hyphens, or parentheses allowed'',
      ''Valid country code (e.g., +1, +254, +44)'',
      ''Valid mobile prefix for the country (if applicable)'']
   \<and> map message (requirements (checkPasswordStrength U v)) =
     [''At least 8 characters'',
      ''At least one uppercase letter'',
      ''At least one lowercase letter'',
      ''At least one digit'',
      ''At least one special character'',
      ''No leading or trailing whitespace'']"
proof -
  have "map message (requirements (validateInternationalPhoneNumber v)) =
     [''Must include country code (+ or 00)'',
      ''Valid length for the country'',
      ''Only digits, spaces, hyphens, or parentheses allowed'',
      ''Valid country code (e.g., +1, +254, +44)'',
      ''Valid mobile prefix for the country (if applicable)'']"
    using phone_result_shape[of v]
    by (auto simp: invalid_phone_input_def phone_requirements_def comp_def)
  moreover have "map message (requirements (checkPasswordStrength U v)) =
     [''At least 8 characters'',
      ''At least one uppercase letter'',
      ''At least one lowercase letter'',
      ''At least one digit'',
      ''At least one special character'',
      ''No leading or trailing whitespace'']"
    using password_result_shape[of U v]
    by (auto simp: invalid_password_input_def password_requirements_def comp_def)
  ultimately show ?thesis by simp
qed

subsection \<open>checkPasswordComplexity\<close>

lemma ne_Cat_Look:
  "(ends (Cat (Look r1) r2) (b, a, cs) \<noteq> []) =
     (ends r1 (b, a, cs) \<noteq> [] \<and> ends r2 (b, a, snd (snd (hd (ends r1 (b, a, cs))))) \<noteq> [])"
  by (cases "ends r1 (b, a, cs)") (auto simp: split_def)

lemma ne_Cat_NotLook:
  "(ends (Cat (NotLook r1) r2) st \<noteq> []) = (ends r1 st = [] \<and> ends r2 st \<noteq> [])"
  by simp

lemma complexity_regex_never: "\<not> test (complexity_regex U) s"
proof
  assume "test (complexity_regex U) s"
  then have "(\<exists>c ys. s = c # ys \<and> Number U c)
           \<and> (\<exists>c ys. s = c # ys \<and> not_bracket [Esc (Letter U), Esc (Number U)] c)"
    unfolding complexity_regex_def test_anchored ne_Cat_NotLook ne_Cat_Look ne_Cat_Cls
    by blast
  then show False
    by (auto simp: not_bracket_def bracket_def)
qed

text \<open>
  C1: the claim gives \<^verbatim>\<open>checkPasswordComplexity("Pass123!@#") == true\<close>. Each lookahead of
  the pattern is \<^verbatim>\<open>(?=\p{..}.*)\<close>, not \<^verbatim>\<open>(?=.*\p{..})\<close>: all four test the first
  character, which cannot be a number and at the same time neither letter nor number. The
  function returns false on every input, for any Unicode data.
\<close>

theorem checkPasswordComplexity_always_false:
  "\<not> checkPasswordComplexity U v
   \<and> \<not> checkPasswordComplexity U (JSString (js ''Pass123!@#''))"
proof -
  have "\<not> checkPasswordComplexity U w" for w
    by (cases w) (simp_all add: checkPasswordComplexity_def complexity_regex_never)
  then show ?thesis by simp
qed

subsection \<open>validateInternationalPhoneNumber\<close>

lemmas phone_eval = validateInternationalPhoneNumber_def phone_requirements_def mobile_prefix_message_def
  prefix_regex_def length_regex_def charset_regex_def known_code_regex_def
  plus_or_00_def phone_class_def country_code_regex_def country_specific_def national_digits_def
  valid_length_def countryRules_def set_met_def set_regex_def every_met_def mobile_prefix_regex_def

text \<open>
  C2: the claim makes requirement 5 fail when the mobile prefix is changed to an unlisted
  one. The country code is captured as \<^verbatim>\<open>\d{1,3}\<close>, greedily, so for \<^verbatim>\<open>+12035550123\<close> it
  is \<^verbatim>\<open>120\<close>, which is not in the table: the rules of country 1 are never consulted and
  the unlisted prefix 203 passes, as the listed 202 does. For the three-digit code 254 the
  prefix is checked.
\<close>

theorem unlisted_prefix_accepted:
  "map met (requirements (validateInternationalPhoneNumber (JSString (js ''+12035550123''))))
     = [True, True, True, True, True]
   \<and> map met (requirements (validateInternationalPhoneNumber (JSString (js ''+12025550123''))))
     = [True, True, True, True, True]
   \<and> (case map_of countryRules (js ''1'') of
        Some rules \<Rightarrow> js ''202'' \<in> set (mobilePrefixes rules) \<and> js ''203'' \<notin> set (mobilePrefixes rules)
      | None \<Rightarrow> False)
   \<and> map met (requirements (validateInternationalPhoneNumber (JSString (js ''+254612345678''))))
     = [True, True, True, True, False]"
  by (simp add: phone_eval eval_defs)























subsection \<open>tokenizeText\<close>

lemma latin_Letter: "latin_data U \<Longrightarrow> c < 128 \<Longrightarrow> Letter U c = (latin_upper c \<or> latin_lower c)"
  by (simp add: latin_data_def basic_latin_def)

lemma latin_Number: "latin_data U \<Longrightarrow> c < 128 \<Longrightarrow> Number U c = esc_d c"
  by (simp add: latin_data_def basic_latin_def)

lemma sample_code_points:
  "code_points sample_text = map of_char ''Hello, world! 123.45 and @user #coding https://example.com''"
  by (simp add: sample_text_def js_def lead_surrogate_def)

lemmas token_eval = tokenizeText_def hashtagRegex_def mentionRegex_def urlRegex_def wordRegex_def
  numberRegex_def punctuationRegex_def tag_class_def url_class_def lit_str_def
  from_code_points_def utf16_def latin_upper_def latin_lower_def

text \<open>
  C4: what \<^verbatim>\<open>tokenizeText\<close> returns on the sample text, for any Unicode data that classify
  the code points below 128 as the Basic Latin block does. Hashtags, mentions, urls and
  numbers are those of the claim. The word scan and the punctuation scan run over the whole
  text, so the words are \<^verbatim>\<open>Hello, world, and, user, coding, https, example, com\<close> and the
  punctuation is \<^verbatim>\<open>, ! . @ # : / / .\<close>, where the claim has the words
  \<^verbatim>\<open>Hello, world, and\<close> and the punctuation \<^verbatim>\<open>, !\<close>. The expected output written
  beside the call in the source, and the example of the README, have the punctuation
  \<^verbatim>\<open>, !\<close> too, and no word from the mention, the hashtag or the url.
\<close>

theorem tokenizeText_sample:
  assumes "latin_data U"
  shows "tokenizeText U (JSString sample_text) =
     \<lparr>hashtags = [js ''#coding''],
      mentions = [js ''@user''],
      urls = [js ''https://example.com''],
      words = map js [''Hello'', ''world'', ''and'', ''user'', ''coding'', ''https'', ''example'', ''com''],
      numbers = [js ''123.45''],
      punctuation = map js ['','', ''!'', ''.'', ''@'', ''#'', '':'', ''/'', ''/'', ''.'']\<rparr>"
proof -
  have "string_match_all (hashtagRegex U) sample_text = [js ''#coding'']"
    using assms by (simp add: sample_code_points token_eval eval_defs latin_Letter latin_Number)
  moreover have "string_match_all (mentionRegex U) sample_text = [js ''@user'']"
    using assms by (simp add: sample_code_points token_eval eval_defs latin_Letter latin_Number)
  moreover have "string_match_all (urlRegex U) sample_text = [js ''https://example.com'']"
    using assms by (simp add: sample_code_points token_eval eval_defs latin_Letter latin_Number)
  moreover have "string_match_all (wordRegex U) sample_text =
      map js [''Hello'', ''world'', ''and'', ''user'', ''coding'', ''https'', ''example'', ''com'']"
    using assms by (simp add: sample_code_points token_eval eval_defs latin_Letter latin_Number)
  moreover have "string_match_all numberRegex sample_text = [js ''123.45'']"
    by (simp add: sample_text_def token_eval eval_defs)
  moreover have "string_match_all (punctuationRegex U) sample_text =
      map js ['','', ''!'', ''.'', ''@'', ''#'', '':'', ''/'', ''/'', ''.'']"
    using assms by (simp add: sample_code_points token_eval eval_defs latin_Letter latin_Number)
  moreover have "length sample_text \<noteq> 0"
    by (simp add: sample_text_def js_def)
  ultimately show ?thesis
    by (simp add: tokenizeText_def)
qed

lemma latin_data_basic_latin: "latin_data basic_latin"
  by (simp add: latin_data_def)

theorem tokenizeText_sample_witness:
  "latin_data basic_latin
   \<and> words (tokenizeText basic_latin (JSString sample_text)) =
       map js [''Hello'', ''world'', ''and'', ''user'', ''coding'', ''https'', ''example'', ''com'']
   \<and> numbers (tokenizeText basic_latin (JSString sample_text)) = [js ''123.45'']"
  using tokenizeText_sample[OF latin_data_basic_latin] latin_data_basic_latin by simp

subsection \<open>cleanString\<close>
























































































end
